theory Spec2Isabelle
  imports Main
begin

section \<open>JavaScript values and platform objects\<close>

text \<open>
  The library is TypeScript glue over the platform's \<^verbatim>\<open>fetch\<close>, \<^verbatim>\<open>JSON\<close> and React.
  Request bodies and decoded responses have type \<^verbatim>\<open>unknown\<close>: they are modelled by
  \<open>js_value\<close>. Numbers are restricted to integers and NaN, which is all the code's
  truthiness tests can tell apart.
\<close>

datatype js_value =
    JUndefined
  | JNull
  | JBool bool
  | JNumber int
  | JNaN
  | JString string
  | JArray "js_value list"
  | JObject "(string \<times> js_value) list"

text \<open>JavaScript's ToBoolean, as used by \<^verbatim>\<open>if (body)\<close> and \<^verbatim>\<open>body ? ... : ...\<close>.\<close>

definition truthy :: "js_value \<Rightarrow> bool" where
  "truthy v =
     (case v of
        JUndefined \<Rightarrow> False
      | JNull \<Rightarrow> False
      | JBool b \<Rightarrow> b
      | JNumber n \<Rightarrow> n \<noteq> 0
      | JNaN \<Rightarrow> False
      | JString s \<Rightarrow> s \<noteq> []
      | JArray xs \<Rightarrow> True
      | JObject kvs \<Rightarrow> True)"

text \<open>Property read \<^verbatim>\<open>v.k\<close> as destructuring performs it: anything but an own
  property of an object reads as \<^verbatim>\<open>undefined\<close>.\<close>

definition property :: "js_value \<Rightarrow> string \<Rightarrow> js_value" where
  "property v k =
     (case v of
        JObject kvs \<Rightarrow> (case map_of kvs k of Some x \<Rightarrow> x | None \<Rightarrow> JUndefined)
      | _ \<Rightarrow> JUndefined)"

definition startsWith :: "string \<Rightarrow> string \<Rightarrow> bool" where
  "startsWith s p = (take (length p) s = p)"

text \<open>A thrown value: the code only reads \<^verbatim>\<open>err.name\<close> and builds messages.\<close>

datatype js_error = JsError (name: string) (message: string)

text \<open>A settled promise. A promise that never settles has no value of this type;
  where that matters (the mutation hook) settlements are kept in a partial map.\<close>

datatype 'a promise = Rejected js_error | Resolved 'a

text \<open>Decimal rendering of a status code inside a template literal.\<close>

fun string_of_nat :: "nat \<Rightarrow> string" where
  "string_of_nat n =
     (if n < 10 then [''0123456789'' ! n]
      else string_of_nat (n div 10) @ [''0123456789'' ! (n mod 10)])"

declare string_of_nat.simps [simp del]

text \<open>
  The argument of \<^verbatim>\<open>fetch\<close>. The body is wire text of type \<open>'w\<close>, produced by the
  platform's \<^verbatim>\<open>JSON.stringify\<close>, which every function below takes as a parameter.
  \<open>init_signal\<close> is the identity of the AbortController whose signal was passed, if any.
\<close>

record 'w RequestInit =
  init_url :: string
  init_method :: string
  init_headers :: "(string \<times> string) list"
  init_body :: "'w option"
  init_signal :: "nat option"

text \<open>\<^verbatim>\<open>Headers.set\<close>: replace the value of an existing name, append otherwise.
  The platform also strips white space around the value and throws a TypeError, before
  any \<^verbatim>\<open>fetch\<close>, for a value holding a NUL, CR or LF; neither is modelled. The
  values the code sets other than a synchronous token (\<^verbatim>\<open>application/json\<close>,
  \<^verbatim>\<open>Bearer [object Promise]\<close>) are valid and stored as they are.\<close>

fun headers_set :: "string \<Rightarrow> string \<Rightarrow> (string \<times> string) list \<Rightarrow> (string \<times> string) list" where
  "headers_set k v [] = [(k, v)]"
| "headers_set k v ((k', v') # hs) =
     (if k' = k then (k, v) # hs else (k', v') # headers_set k v hs)"

text \<open>A \<^verbatim>\<open>Response\<close>: its status and what \<^verbatim>\<open>response.json()\<close> settles to
  (rejected when the body is not JSON). \<^verbatim>\<open>response.ok\<close> is the platform's 200..299.\<close>

record response =
  status :: nat
  json :: "js_value promise"

definition ok :: "response \<Rightarrow> bool" where
  "ok r = (200 \<le> status r \<and> status r \<le> 299)"

text \<open>What awaiting \<^verbatim>\<open>fetch(...)\<close> gives: a thrown error (network failure, abort)
  or a response.\<close>

datatype fetch_result = FetchRejects js_error | FetchResponds response

section \<open>createServerClient\<close>

text \<open>
  \<^verbatim>\<open>getToken?: () => string | undefined | Promise<string | undefined>\<close>.
  The provider is modelled by the value a call to it returns; a promise carries what
  it would resolve to.
\<close>

datatype token = TokenString string | TokenUndefined | TokenPromise "string option"

record ServerClientConfig =
  baseURL :: string
  getToken :: "token option"

text \<open>\<^verbatim>\<open>if (token)\<close>: a string is truthy when non-empty, a Promise object always.\<close>

definition token_truthy :: "token \<Rightarrow> bool" where
  "token_truthy t =
     (case t of TokenString s \<Rightarrow> s \<noteq> [] | TokenUndefined \<Rightarrow> False | TokenPromise r \<Rightarrow> True)"

text \<open>The token inside the template literal \<^verbatim>\<open>`Bearer ${token}`\<close>.\<close>

definition token_text :: "token \<Rightarrow> string" where
  "token_text t =
     (case t of
        TokenString s \<Rightarrow> s
      | TokenUndefined \<Rightarrow> ''undefined''
      | TokenPromise r \<Rightarrow> ''[object Promise]'')"

text \<open>
  \<^verbatim>\<open>request(method, path, body?)\<close>. The result pairs the one call made to
  \<^verbatim>\<open>fetch\<close> with what the returned promise settles to. An absent body is
  \<open>JUndefined\<close>.
\<close>

definition request ::
  "(js_value \<Rightarrow> 'w) \<Rightarrow> ('w RequestInit \<Rightarrow> fetch_result) \<Rightarrow> ServerClientConfig \<Rightarrow>
     string \<Rightarrow> string \<Rightarrow> js_value \<Rightarrow> 'w RequestInit \<times> js_value promise" where
  "request JSON_stringify fetch config method path body =
     (let url = baseURL config @ path;
          headers = [];
          headers = (case getToken config of
                       None \<Rightarrow> headers
                     | Some token \<Rightarrow>
                         if token_truthy token
                         then headers_set ''Authorization'' (''Bearer '' @ token_text token) headers
                         else headers);
          headers = (if truthy body
                     then headers_set ''Content-Type'' ''application/json'' headers
                     else headers);
          init = \<lparr>init_url = url, init_method = method, init_headers = headers,
                  init_body = (if truthy body then Some (JSON_stringify body) else None),
                  init_signal = None\<rparr>
      in (init,
          case fetch init of
            FetchRejects e \<Rightarrow> Rejected e
          | FetchResponds r \<Rightarrow>
              if \<not> ok r
              then Rejected (JsError ''Error'' (''Request failed: '' @ string_of_nat (status r)))
              else json r))"

definition get ::
  "(js_value \<Rightarrow> 'w) \<Rightarrow> ('w RequestInit \<Rightarrow> fetch_result) \<Rightarrow> ServerClientConfig \<Rightarrow>
     string \<Rightarrow> 'w RequestInit \<times> js_value promise" where
  "get JSON_stringify fetch config path = request JSON_stringify fetch config ''GET'' path JUndefined"

definition post ::
  "(js_value \<Rightarrow> 'w) \<Rightarrow> ('w RequestInit \<Rightarrow> fetch_result) \<Rightarrow> ServerClientConfig \<Rightarrow>
     string \<Rightarrow> js_value \<Rightarrow> 'w RequestInit \<times> js_value promise" where
  "post JSON_stringify fetch config path body =
     request JSON_stringify fetch config ''POST'' path body"

definition put ::
  "(js_value \<Rightarrow> 'w) \<Rightarrow> ('w RequestInit \<Rightarrow> fetch_result) \<Rightarrow> ServerClientConfig \<Rightarrow>
     string \<Rightarrow> js_value \<Rightarrow> 'w RequestInit \<times> js_value promise" where
  "put JSON_stringify fetch config path body =
     request JSON_stringify fetch config ''PUT'' path body"

definition delete ::
  "(js_value \<Rightarrow> 'w) \<Rightarrow> ('w RequestInit \<Rightarrow> fetch_result) \<Rightarrow> ServerClientConfig \<Rightarrow>
     string \<Rightarrow> 'w RequestInit \<times> js_value promise" where
  "delete JSON_stringify fetch config path =
     request JSON_stringify fetch config ''DELETE'' path JUndefined"

text \<open>Three upstream servers for concrete runs: one that is unreachable, one that
  answers every request with a fixed status and JSON body, and one that answers with a
  fixed status and an empty body, on which \<^verbatim>\<open>response.json()\<close> rejects. In
  concrete runs the wire text is kept symbolic: \<^verbatim>\<open>JSON.stringify\<close> is the
  identity on \<open>js_value\<close>.\<close>

definition unreachable :: "'w RequestInit \<Rightarrow> fetch_result" where
  "unreachable init = FetchRejects (JsError ''TypeError'' ''fetch failed'')"

definition answering :: "nat \<Rightarrow> js_value \<Rightarrow> 'w RequestInit \<Rightarrow> fetch_result" where
  "answering s v init = FetchResponds \<lparr>status = s, json = Resolved v\<rparr>"

definition answering_empty :: "nat \<Rightarrow> 'w RequestInit \<Rightarrow> fetch_result" where
  "answering_empty s init =
     FetchResponds
       \<lparr>status = s, json = Rejected (JsError ''SyntaxError'' ''Unexpected end of JSON input'')\<rparr>"

section \<open>serverQuery\<close>

text \<open>\<^verbatim>\<open>serverQuery(path)\<close>: a client whose provider is the async function reading the
  \<^verbatim>\<open>accessToken\<close> cookie, then \<^verbatim>\<open>client.get(path)\<close>.\<close>

definition serverQuery ::
  "(js_value \<Rightarrow> 'w) \<Rightarrow> ('w RequestInit \<Rightarrow> fetch_result) \<Rightarrow> string \<Rightarrow> string option \<Rightarrow>
     string \<Rightarrow> 'w RequestInit \<times> js_value promise" where
  "serverQuery JSON_stringify fetch API_URL accessToken path =
     (let client = \<lparr>baseURL = API_URL, getToken = Some (TokenPromise accessToken)\<rparr>
      in get JSON_stringify fetch client path)"

section \<open>The proxy route handler\<close>

text \<open>
  The route handler \<^verbatim>\<open>POST(req)\<close> that the README tells the application to
  install at \<^verbatim>\<open>app/api/proxy/route.ts\<close>. Its inputs besides the platform are
  \<^verbatim>\<open>process.env.API_URL\<close>, the value of the \<^verbatim>\<open>accessToken\<close> cookie and what
  \<^verbatim>\<open>req.json()\<close> settles to. The result pairs the calls made to \<^verbatim>\<open>fetch\<close>
  with the response returned; \<^verbatim>\<open>NextResponse.json(v, {status})\<close> is a response
  whose body decodes to \<open>v\<close>.
\<close>

definition ALLOWED_METHODS :: "js_value list" where
  "ALLOWED_METHODS = [JString ''GET'', JString ''POST'', JString ''PUT'', JString ''DELETE'']"

definition NextResponse_json :: "js_value \<Rightarrow> nat \<Rightarrow> response" where
  "NextResponse_json v s = \<lparr>status = s, json = Resolved v\<rparr>"

definition POST ::
  "(js_value \<Rightarrow> 'w) \<Rightarrow> ('w RequestInit \<Rightarrow> fetch_result) \<Rightarrow> string \<Rightarrow> string option \<Rightarrow>
     js_value promise \<Rightarrow> 'w RequestInit list \<times> response" where
  "POST JSON_stringify fetch API_URL accessToken req_json =
     (case req_json of
        Rejected e \<Rightarrow>
          ([], NextResponse_json (JObject [(''error'', JString ''Invalid JSON body'')]) 400)
      | Resolved payload \<Rightarrow>
          let fields = (if payload = JNull \<or> payload = JUndefined then JObject [] else payload);
              method = property fields ''method'';
              path = property fields ''path'';
              body = property fields ''body''
          in if method \<notin> set ALLOWED_METHODS
             then ([], NextResponse_json (JObject [(''error'', JString ''Invalid method'')]) 400)
             else
               (case path of
                  JString p \<Rightarrow>
                    if \<not> startsWith p ''/''
                    then ([], NextResponse_json (JObject [(''error'', JString ''Invalid path'')]) 400)
                    else
                      let serverClient = \<lparr>baseURL = API_URL,
                                          getToken = Some (TokenPromise accessToken)\<rparr>;
                          made =
                            (if method = JString ''GET''
                             then Some (get JSON_stringify fetch serverClient p)
                             else if method = JString ''POST''
                             then Some (post JSON_stringify fetch serverClient p body)
                             else if method = JString ''PUT''
                             then Some (put JSON_stringify fetch serverClient p body)
                             else if method = JString ''DELETE''
                             then Some (delete JSON_stringify fetch serverClient p)
                             else None)
                      in (case made of
                            None \<Rightarrow> ([], NextResponse_json JUndefined 200)
                          | Some (init, Resolved data) \<Rightarrow> ([init], NextResponse_json data 200)
                          | Some (init, Rejected e) \<Rightarrow>
                              ([init],
                               NextResponse_json (JObject [(''error'', JString ''Request failed'')]) 500))
                | _ \<Rightarrow> ([], NextResponse_json (JObject [(''error'', JString ''Invalid path'')]) 400)))"

section \<open>The client hooks\<close>

text \<open>\<^verbatim>\<open>QueryState<T>\<close> and \<^verbatim>\<open>MutationState<T>\<close>: an absent field is \<open>None\<close>.\<close>

record hook_state =
  data :: "js_value option"
  error :: "string option"
  loading :: bool

text \<open>
  One mounted hook together with the part of React and of the platform it touches.
  \<open>state\<close> is the \<^verbatim>\<open>useState\<close> cell and records every \<^verbatim>\<open>setState\<close> call, also
  one made after the component has gone. AbortControllers are numbered in the order of
  their creation: \<open>controllers\<close> counts them, \<open>aborted\<close> holds those whose
  \<^verbatim>\<open>abort()\<close> was called, \<open>pending\<close> those whose \<^verbatim>\<open>fetch\<close> has not settled, and
  \<open>calls\<close> lists the arguments of every \<^verbatim>\<open>fetch\<close>, oldest first.
\<close>

record 'w hook_instance =
  state :: hook_state
  mounted :: bool
  controllers :: nat
  aborted :: "nat set"
  pending :: "nat set"
  calls :: "'w RequestInit list"

text \<open>
  What happens to a hook: the component renders again and passes the hook arguments
  \<open>'a\<close> (the path for \<^verbatim>\<open>useAutoQuery\<close>, the path and the method for
  \<^verbatim>\<open>useAutoMutation\<close>), the caller invokes \<^verbatim>\<open>mutate(body)\<close>, the component
  unmounts, or the platform settles the \<^verbatim>\<open>fetch\<close> that was given a controller's
  signal.
\<close>

datatype 'a event = Render 'a | Mutate js_value | Unmount | Settle nat fetch_result

text \<open>
  \<^verbatim>\<open>await fetch(..., {signal})\<close> followed by \<^verbatim>\<open>await res.json()\<close>: once the
  signal's controller is aborted the platform rejects with an error named AbortError,
  whatever the network would have delivered.
\<close>

definition awaited :: "bool \<Rightarrow> fetch_result \<Rightarrow> js_value promise" where
  "awaited is_aborted r =
     (if is_aborted then Rejected (JsError ''AbortError'' ''The operation was aborted.'')
      else (case r of FetchRejects e \<Rightarrow> Rejected e | FetchResponds res \<Rightarrow> json res))"

subsection \<open>useAutoQuery\<close>

text \<open>The instance also holds the dependency \<^verbatim>\<open>[path]\<close> of the last run of the effect
  and the controller that run created, which its cleanup closes over.\<close>

record 'w query_instance = "'w hook_instance" +
  deps :: string
  controller :: nat

text \<open>The effect body up to the first \<^verbatim>\<open>await\<close>: a new controller and the call to
  \<^verbatim>\<open>fetch\<close>. It does not call \<^verbatim>\<open>setState\<close>.\<close>

definition effect :: "(js_value \<Rightarrow> 'w) \<Rightarrow> string \<Rightarrow> 'w query_instance \<Rightarrow> 'w query_instance" where
  "effect JSON_stringify path h =
     (let c = controllers h
      in h\<lparr>controllers := Suc c,
           pending := insert c (pending h),
           calls := calls h @
             [\<lparr>init_url = ''/api/proxy'', init_method = ''POST'',
               init_headers = [(''Content-Type'', ''application/json'')],
               init_body = Some (JSON_stringify
                 (JObject [(''method'', JString ''GET''), (''path'', JString path)])),
               init_signal = Some c\<rparr>],
           deps := path,
           controller := c\<rparr>)"

text \<open>The cleanup returned by the effect: \<^verbatim>\<open>controller.abort()\<close>.\<close>

definition cleanup :: "'w query_instance \<Rightarrow> 'w query_instance" where
  "cleanup h = h\<lparr>aborted := insert (controller h) (aborted h)\<rparr>"

text \<open>The rest of the async function, run when the awaited calls settle.\<close>

definition query_settled :: "hook_state \<Rightarrow> js_value promise \<Rightarrow> hook_state" where
  "query_settled st p =
     (case p of
        Resolved data' \<Rightarrow> \<lparr>data = Some data', error = None, loading = False\<rparr>
      | Rejected err \<Rightarrow>
          if name err = ''AbortError'' then st
          else \<lparr>data = None, error = Some ''Request failed'', loading = False\<rparr>)"

text \<open>The first render: \<^verbatim>\<open>useState({loading: true})\<close>, then the effect.\<close>

definition useAutoQuery :: "(js_value \<Rightarrow> 'w) \<Rightarrow> string \<Rightarrow> 'w query_instance" where
  "useAutoQuery JSON_stringify path =
     effect JSON_stringify path
       \<lparr>state = \<lparr>data = None, error = None, loading = True\<rparr>, mounted = True,
        controllers = 0, aborted = {}, pending = {}, calls = [],
        deps = path, controller = 0\<rparr>"

text \<open>React runs the cleanup and the effect again when \<^verbatim>\<open>path\<close> differs from the
  dependency of the last run, and the cleanup alone at unmount.\<close>

definition useAutoQuery_step ::
  "(js_value \<Rightarrow> 'w) \<Rightarrow> 'w query_instance \<Rightarrow> string event \<Rightarrow> 'w query_instance" where
  "useAutoQuery_step JSON_stringify h e =
     (case e of
        Render path \<Rightarrow>
          if mounted h \<and> path \<noteq> deps h then effect JSON_stringify path (cleanup h) else h
      | Mutate b \<Rightarrow> h
      | Unmount \<Rightarrow> if mounted h then (cleanup h)\<lparr>mounted := False\<rparr> else h
      | Settle c r \<Rightarrow>
          if c \<in> pending h
          then h\<lparr>pending := pending h - {c},
                 state := query_settled (state h) (awaited (c \<in> aborted h) r)\<rparr>
          else h)"

subsection \<open>useAutoMutation\<close>

text \<open>\<open>returned\<close> maps the controller of a \<^verbatim>\<open>mutate\<close> call to what the promise it
  returned has settled to; a call whose promise is still pending has no entry.
  \<open>rendered\<close> holds the path and method of the latest render after the first, which
  the \<^verbatim>\<open>mutate\<close> closure of that render closes over.\<close>

record 'w mutation_instance = "'w hook_instance" +
  rendered :: "(string \<times> string) option"
  returned :: "nat \<Rightarrow> js_value promise option"

definition useAutoMutation :: "'w mutation_instance" where
  "useAutoMutation =
     \<lparr>state = \<lparr>data = None, error = None, loading = False\<rparr>, mounted = True,
      controllers = 0, aborted = {}, pending = {}, calls = [],
      rendered = None, returned = Map.empty\<rparr>"

text \<open>\<^verbatim>\<open>mutate(body)\<close> up to its first \<^verbatim>\<open>await\<close>.\<close>

definition mutate ::
  "(js_value \<Rightarrow> 'w) \<Rightarrow> string \<Rightarrow> string \<Rightarrow> js_value \<Rightarrow> 'w mutation_instance \<Rightarrow> 'w mutation_instance" where
  "mutate JSON_stringify path method body h =
     (let c = controllers h
      in h\<lparr>controllers := Suc c,
           state := \<lparr>data = None, error = None, loading = True\<rparr>,
           pending := insert c (pending h),
           calls := calls h @
             [\<lparr>init_url = ''/api/proxy'', init_method = ''POST'',
               init_headers = [(''Content-Type'', ''application/json'')],
               init_body = Some (JSON_stringify
                 (JObject [(''method'', JString method), (''path'', JString path),
                           (''body'', body)])),
               init_signal = Some c\<rparr>]\<rparr>)"

text \<open>The rest of \<^verbatim>\<open>mutate\<close> for the call with controller \<open>c\<close>: the state it sets and
  how the promise it returned settles.\<close>

definition mutate_settled ::
  "nat \<Rightarrow> js_value promise \<Rightarrow> 'w mutation_instance \<Rightarrow> 'w mutation_instance" where
  "mutate_settled c p h =
     (case p of
        Resolved data' \<Rightarrow>
          h\<lparr>state := \<lparr>data = Some data', error = None, loading = False\<rparr>,
            returned := (returned h)(c \<mapsto> Resolved data')\<rparr>
      | Rejected err \<Rightarrow>
          if name err = ''AbortError''
          then h\<lparr>returned := (returned h)(c \<mapsto> Resolved JUndefined)\<rparr>
          else h\<lparr>state := \<lparr>data = None, error = Some ''Request failed'', loading = False\<rparr>,
                 returned := (returned h)(c \<mapsto> Rejected err)\<rparr>)"

text \<open>
  \<open>path\<close> and \<open>method\<close> are the arguments of the first render. The hook registers no
  effect and no cleanup: a later render only makes a new \<^verbatim>\<open>mutate\<close> closure over
  its arguments, which the caller invokes from then on, and an unmount runs none of the
  hook's code.
\<close>

definition useAutoMutation_step ::
  "(js_value \<Rightarrow> 'w) \<Rightarrow> string \<Rightarrow> string \<Rightarrow> 'w mutation_instance \<Rightarrow> (string \<times> string) event \<Rightarrow>
     'w mutation_instance" where
  "useAutoMutation_step JSON_stringify path method h e =
     (case e of
        Render args \<Rightarrow> if mounted h then h\<lparr>rendered := Some args\<rparr> else h
      | Mutate body \<Rightarrow>
          (case rendered h of
             None \<Rightarrow> mutate JSON_stringify path method body h
           | Some (path', method') \<Rightarrow> mutate JSON_stringify path' method' body h)
      | Unmount \<Rightarrow> h\<lparr>mounted := False\<rparr>
      | Settle c r \<Rightarrow>
          if c \<in> pending h
          then mutate_settled c (awaited (c \<in> aborted h) r) (h\<lparr>pending := pending h - {c}\<rparr>)
          else h)"

section \<open>The dispatcher\<close>

text \<open>The one call to \<^verbatim>\<open>fetch\<close> that \<open>request\<close> makes, written out.\<close>

lemma request_sent:
  "fst (request S F config m p b) =
     \<lparr>init_url = baseURL config @ p, init_method = m,
      init_headers =
        (let hs = (case getToken config of
                     None \<Rightarrow> []
                   | Some token \<Rightarrow>
                       if token_truthy token
                       then [(''Authorization'', ''Bearer '' @ token_text token)]
                       else [])
         in if truthy b then headers_set ''Content-Type'' ''application/json'' hs else hs),
      init_body = (if truthy b then Some (S b) else None),
      init_signal = None\<rparr>"
  by (simp add: request_def Let_def split: option.splits)

lemma map_of_headers_set: "map_of (headers_set k v hs) k = Some v"
  by (induction hs) auto

lemma map_of_headers_set_other: "k' \<noteq> k \<Longrightarrow> map_of (headers_set k v hs) k' = map_of hs k'"
  by (induction hs) auto

text \<open>With a provider that returns its token synchronously the header is as
  documented: present exactly for a non-empty token (which the platform stores with
  the white space around it stripped).\<close>

lemma request_string_token_header:
  "map_of (init_headers (fst (request S F \<lparr>baseURL = base, getToken = Some (TokenString x)\<rparr> m p b)))
     ''Authorization'' = (if x = [] then None else Some (''Bearer '' @ x))"
  by (simp add: request_sent token_truthy_def token_text_def Let_def map_of_headers_set_other)

lemma request_no_token_header:
  "getToken config = None \<or> getToken config = Some TokenUndefined \<Longrightarrow>
   map_of (init_headers (fst (request S F config m p b))) ''Authorization'' = None"
  by (auto simp: request_sent token_truthy_def Let_def map_of_headers_set_other)

text \<open>
  Claim C1: with a configured token provider, the provider is awaited when it is
  asynchronous, a non-empty token X is sent as \<^verbatim>\<open>Authorization: Bearer X\<close>, and no
  token means no Authorization header.

  \<open>request\<close> uses the value \<^verbatim>\<open>getToken()\<close> returns without awaiting it. When the
  provider is asynchronous that value is a Promise object: it is truthy and renders as
  \<^verbatim>\<open>[object Promise]\<close>, so the header below is sent whatever the promise resolves to,
  a token or none. \<open>serverQuery\<close> and the proxy route both pass such a provider.
\<close>

theorem request_promise_token_header:
  "map_of (init_headers (fst (request S F \<lparr>baseURL = base, getToken = Some (TokenPromise t)\<rparr> m p b)))
     ''Authorization'' = Some ''Bearer [object Promise]''"
  by (simp add: request_sent token_truthy_def token_text_def Let_def map_of_headers_set_other)

lemma serverQuery_header:
  "map_of (init_headers (fst (serverQuery S F api cookie p))) ''Authorization''
     = Some ''Bearer [object Promise]''"
  by (simp add: serverQuery_def get_def request_sent token_truthy_def token_text_def Let_def)

text \<open>The status inside the message is its decimal rendering: reading the digits
  back gives the number, so different statuses give different messages.\<close>

lemma digit_code: "d < 10 \<Longrightarrow> of_char (''0123456789'' ! d) = 48 + d"
proof -
  assume "d < 10"
  then have "d \<in> {0, 1, 2, 3, 4, 5, 6, 7, 8, 9}" by auto
  then show ?thesis by auto
qed

lemma string_of_nat_decimal:
  "foldl (\<lambda>a c. 10 * a + (of_char c - 48)) 0 (string_of_nat n) = n"
proof (induction n rule: string_of_nat.induct)
  case (1 n)
  show ?case
  proof (cases "n < 10")
    case True
    then show ?thesis
      by (subst string_of_nat.simps) (simp add: digit_code)
  next
    case False
    then have "foldl (\<lambda>a c. 10 * a + (of_char c - 48)) 0 (string_of_nat (n div 10)) = n div 10"
      using "1.IH" by simp
    then show ?thesis
      using False
      by (subst string_of_nat.simps) (simp add: digit_code)
  qed
qed

lemma string_of_nat_inj:
  assumes "string_of_nat m = string_of_nat n"
  shows "m = n"
proof -
  have "foldl (\<lambda>a c. 10 * a + (of_char c - 48)) (0::nat) (string_of_nat m) =
        foldl (\<lambda>a c. 10 * a + (of_char c - 48)) (0::nat) (string_of_nat n)"
    by (simp only: assms)
  then show ?thesis
    by (simp only: string_of_nat_decimal)
qed

text \<open>
  Claim C5: a dispatch (get, post, put or delete) whose response has a status in
  [200, 300) resolves with the decoded JSON body, whatever its shape; a response with
  status 300 or more rejects with the error \<^verbatim>\<open>Request failed: <status>\<close>.

  \<open>request\<close> returns \<^verbatim>\<open>response.json()\<close> for every response in the success
  range. Where the body is not JSON, as the empty body of a 204, that promise rejects
  and so does the call.
\<close>

theorem dispatch_empty_body_counterexample:
  "snd (delete id (answering_empty 204)
          \<lparr>baseURL = ''https://api.example.com'', getToken = None\<rparr> ''/todos/1'')
     = Rejected (JsError ''SyntaxError'' ''Unexpected end of JSON input'')"
  by (simp add: delete_def request_def answering_empty_def ok_def Let_def)

text \<open>
  Claim C5, amended: a dispatch (get, post, put or delete) whose response has a status
  in [200, 300) settles as the decoding of the response body does: it resolves with the
  decoded JSON body, whatever its shape, when the body is JSON, and rejects with the
  decoding error when it is not; a response with status 300 or more rejects with the
  error \<^verbatim>\<open>Request failed: <status>\<close>.
\<close>

theorem dispatch_status:
  assumes "call \<in> {get S F config p, post S F config p b, put S F config p b, delete S F config p}"
    and "F (fst call) = FetchResponds r"
  shows "(200 \<le> status r \<and> status r < 300 \<longrightarrow> snd call = json r) \<and>
         (300 \<le> status r \<longrightarrow>
            snd call = Rejected (JsError ''Error'' (''Request failed: '' @ string_of_nat (status r))))"
  using assms
  by (auto simp: get_def post_def put_def delete_def request_def Let_def ok_def)

theorem dispatch_status_witness:
  "snd (get id (answering 200 (JArray [JNumber 1]))
          \<lparr>baseURL = ''https://api.example.com'', getToken = None\<rparr> ''/todos'')
     = Resolved (JArray [JNumber 1]) \<and>
   snd (put id (answering_empty 204)
          \<lparr>baseURL = ''https://api.example.com'', getToken = None\<rparr> ''/todos/1''
          (JObject [(''completed'', JBool True)]))
     = Rejected (JsError ''SyntaxError'' ''Unexpected end of JSON input'') \<and>
   snd (delete id (answering 404 JNull)
          \<lparr>baseURL = ''https://api.example.com'', getToken = None\<rparr> ''/todos/1'')
     = Rejected (JsError ''Error'' ''Request failed: 404'') \<and>
   snd (post id (answering 500 (JObject [(''error'', JString ''boom'')]))
          \<lparr>baseURL = ''https://api.example.com'', getToken = None\<rparr> ''/todos''
          (JObject [(''title'', JString ''New Todo'')]))
     = Rejected (JsError ''Error'' ''Request failed: 500'')"
proof -
  let ?c = "\<lparr>baseURL = ''https://api.example.com'', getToken = None\<rparr>"
  let ?b = "JObject [(''completed'', JBool True)]"
  let ?t = "JObject [(''title'', JString ''New Todo'')]"
  let ?e = "JObject [(''error'', JString ''boom'')]"
  have a: "snd (get id (answering 200 (JArray [JNumber 1])) ?c ''/todos'')
             = Resolved (JArray [JNumber 1])"
    using dispatch_status [of "get id (answering 200 (JArray [JNumber 1])) ?c ''/todos''" id
        "answering 200 (JArray [JNumber 1])" ?c "''/todos''" JUndefined
        "\<lparr>status = 200, json = Resolved (JArray [JNumber 1])\<rparr>"]
    by (simp add: answering_def)
  have b: "snd (put id (answering_empty 204) ?c ''/todos/1'' ?b)
             = Rejected (JsError ''SyntaxError'' ''Unexpected end of JSON input'')"
    using dispatch_status [of "put id (answering_empty 204) ?c ''/todos/1'' ?b" id
        "answering_empty 204" ?c "''/todos/1''" ?b
        "\<lparr>status = 204,
          json = Rejected (JsError ''SyntaxError'' ''Unexpected end of JSON input'')\<rparr>"]
    by (simp add: answering_empty_def)
  have c: "snd (delete id (answering 404 JNull) ?c ''/todos/1'')
             = Rejected (JsError ''Error'' ''Request failed: 404'')"
    using dispatch_status [of "delete id (answering 404 JNull) ?c ''/todos/1''" id
        "answering 404 JNull" ?c "''/todos/1''" JUndefined
        "\<lparr>status = 404, json = Resolved JNull\<rparr>"]
    by (simp add: answering_def string_of_nat.simps)
  have d: "snd (post id (answering 500 ?e) ?c ''/todos'' ?t)
             = Rejected (JsError ''Error'' ''Request failed: 500'')"
    using dispatch_status [of "post id (answering 500 ?e) ?c ''/todos'' ?t" id
        "answering 500 ?e" ?c "''/todos''" ?t "\<lparr>status = 500, json = Resolved ?e\<rparr>"]
    by (simp add: answering_def string_of_nat.simps)
  show ?thesis using a b c d by simp
qed

text \<open>A truthy body is sent as the claim says: with the JSON content type and as
  \<^verbatim>\<open>JSON.stringify(body)\<close>.\<close>

lemma post_put_truthy_body:
  assumes "call \<in> {post S F config p b, put S F config p b}" and "truthy b"
  shows "map_of (init_headers (fst call)) ''Content-Type'' = Some ''application/json'' \<and>
         init_body (fst call) = Some (S b)"
  using assms
  by (auto simp: post_def put_def request_sent Let_def map_of_headers_set)

text \<open>
  Claim C7: every non-GET dispatch invoked with a defined body carries
  \<^verbatim>\<open>Content-Type: application/json\<close> and sends the JSON serialization of the body,
  so that decoding the payload gives the body back.

  \<open>request\<close> tests the body for truthiness, not for being defined. The JSON values
  0, false, the empty string and null are defined bodies, which \<^verbatim>\<open>post\<close> and
  \<^verbatim>\<open>put\<close> accept; for each of them the request goes out with no content type and
  no payload at all, so there is nothing to decode.
\<close>

theorem post_put_falsy_body_dropped:
  "fst (post S F \<lparr>baseURL = base, getToken = None\<rparr> p (JNumber 0))
     = \<lparr>init_url = base @ p, init_method = ''POST'', init_headers = [], init_body = None,
        init_signal = None\<rparr> \<and>
   fst (post S F \<lparr>baseURL = base, getToken = None\<rparr> p (JBool False))
     = \<lparr>init_url = base @ p, init_method = ''POST'', init_headers = [], init_body = None,
        init_signal = None\<rparr> \<and>
   fst (put S F \<lparr>baseURL = base, getToken = None\<rparr> p (JString []))
     = \<lparr>init_url = base @ p, init_method = ''PUT'', init_headers = [], init_body = None,
        init_signal = None\<rparr> \<and>
   fst (put S F \<lparr>baseURL = base, getToken = None\<rparr> p JNull)
     = \<lparr>init_url = base @ p, init_method = ''PUT'', init_headers = [], init_body = None,
        init_signal = None\<rparr>"
  by (simp add: post_def put_def request_sent truthy_def)

text \<open>The mutation hook does forward such a body: \<^verbatim>\<open>mutate(0)\<close> posts
  \<^verbatim>\<open>{method, path, body: 0}\<close> to the proxy, whose route hands 0 to
  \<^verbatim>\<open>serverClient.post\<close>.\<close>

lemma mutate_forwards_zero:
  "map init_body (calls (useAutoMutation_step S path m useAutoMutation (Mutate (JNumber 0))))
     = [Some (S (JObject [(''method'', JString m), (''path'', JString path),
                           (''body'', JNumber 0)]))]"
  by (simp add: useAutoMutation_step_def useAutoMutation_def mutate_def Let_def)

section \<open>The proxy route handler validates before it dispatches\<close>

lemma property_nullish:
  "property (if payload = JNull \<or> payload = JUndefined then JObject [] else payload) k =
     property payload k"
  by (auto simp: property_def)

lemma POST_invalid_json:
  "POST S F api tok (Rejected e) =
     ([], NextResponse_json (JObject [(''error'', JString ''Invalid JSON body'')]) 400)"
  by (simp add: POST_def)

lemma POST_invalid_method:
  "property payload ''method'' \<notin> set ALLOWED_METHODS \<Longrightarrow>
   POST S F api tok (Resolved payload) =
     ([], NextResponse_json (JObject [(''error'', JString ''Invalid method'')]) 400)"
  by (simp add: POST_def Let_def property_nullish)

lemma POST_invalid_path:
  "property payload ''method'' \<in> set ALLOWED_METHODS \<Longrightarrow>
   \<forall>p. property payload ''path'' = JString p \<longrightarrow> \<not> startsWith p ''/'' \<Longrightarrow>
   POST S F api tok (Resolved payload) =
     ([], NextResponse_json (JObject [(''error'', JString ''Invalid path'')]) 400)"
  by (simp add: POST_def Let_def property_nullish split: js_value.splits)

lemma POST_GET:
  "property payload ''method'' = JString ''GET'' \<Longrightarrow>
   property payload ''path'' = JString p \<Longrightarrow> startsWith p ''/'' \<Longrightarrow>
   fst (POST S F api tok (Resolved payload)) =
     [fst (get S F \<lparr>baseURL = api, getToken = Some (TokenPromise tok)\<rparr> p)]"
  by (simp add: POST_def Let_def property_nullish ALLOWED_METHODS_def
      split: prod.splits promise.splits)

text \<open>
  Claim C6: the proxy endpoint answers with a structured 4xx response, and dispatches
  nothing, when the method is not one of GET, POST, PUT, DELETE (such as PATCH with path
  \<^verbatim>\<open>/x\<close>) and when the path is not a string starting with \<^verbatim>\<open>/\<close> (such as GET with
  path \<^verbatim>\<open>x\<close>); for GET with path \<^verbatim>\<open>/x\<close> a dispatch is attempted.
\<close>

theorem proxy_validation:
  fixes S :: "js_value \<Rightarrow> 'w"
  defines "bad_request r \<equiv>
     fst r = [] \<and> status (snd r) = 400 \<and>
     (\<exists>msg. json (snd r) = Resolved (JObject [(''error'', JString msg)]))"
  shows "(property payload ''method'' \<notin>
            {JString ''GET'', JString ''POST'', JString ''PUT'', JString ''DELETE''}
            \<longrightarrow> bad_request (POST S F api tok (Resolved payload))) \<and>
         ((\<forall>p. property payload ''path'' = JString p \<longrightarrow> \<not> startsWith p ''/'')
            \<longrightarrow> bad_request (POST S F api tok (Resolved payload))) \<and>
         (\<exists>init. fst (POST S F api tok
             (Resolved (JObject [(''method'', JString ''GET''), (''path'', JString ''/x'')]))) = [init] \<and>
            init_url init = api @ ''/x'' \<and> init_method init = ''GET'')"
proof (intro conjI impI)
  assume "property payload ''method'' \<notin>
            {JString ''GET'', JString ''POST'', JString ''PUT'', JString ''DELETE''}"
  then have "property payload ''method'' \<notin> set ALLOWED_METHODS"
    by (simp add: ALLOWED_METHODS_def)
  then show "bad_request (POST S F api tok (Resolved payload))"
    by (simp add: POST_invalid_method bad_request_def NextResponse_json_def)
next
  assume p: "\<forall>p. property payload ''path'' = JString p \<longrightarrow> \<not> startsWith p ''/''"
  show "bad_request (POST S F api tok (Resolved payload))"
  proof (cases "property payload ''method'' \<in> set ALLOWED_METHODS")
    case True
    then show ?thesis
      using p by (simp add: POST_invalid_path bad_request_def NextResponse_json_def)
  next
    case False
    then show ?thesis
      by (simp add: POST_invalid_method bad_request_def NextResponse_json_def)
  qed
next
  let ?payload = "JObject [(''method'', JString ''GET''), (''path'', JString ''/x'')]"
  have "fst (POST S F api tok (Resolved ?payload)) =
          [fst (get S F \<lparr>baseURL = api, getToken = Some (TokenPromise tok)\<rparr> ''/x'')]"
    by (rule POST_GET) (simp_all add: property_def startsWith_def)
  then show "\<exists>init. fst (POST S F api tok (Resolved ?payload)) = [init] \<and>
               init_url init = api @ ''/x'' \<and> init_method init = ''GET''"
    by (simp add: get_def request_sent)
qed

theorem proxy_validation_witness:
  "fst (POST id unreachable ''https://api.example.com'' None
     (Resolved (JObject [(''method'', JString ''PATCH''), (''path'', JString ''/x'')]))) = [] \<and>
   status (snd (POST id unreachable ''https://api.example.com'' None
     (Resolved (JObject [(''method'', JString ''PATCH''), (''path'', JString ''/x'')])))) = 400 \<and>
   fst (POST id unreachable ''https://api.example.com'' None
     (Resolved (JObject [(''method'', JString ''GET''), (''path'', JString ''x'')]))) = [] \<and>
   status (snd (POST id unreachable ''https://api.example.com'' None
     (Resolved (JObject [(''method'', JString ''GET''), (''path'', JString ''x'')])))) = 400"
  using proxy_validation [of "JObject [(''method'', JString ''PATCH''), (''path'', JString ''/x'')]"
      id unreachable "''https://api.example.com''" None]
    proxy_validation [of "JObject [(''method'', JString ''GET''), (''path'', JString ''x'')]"
      id unreachable "''https://api.example.com''" None]
  by (simp add: property_def startsWith_def)

section \<open>useAutoQuery\<close>

subsection \<open>Aborted controllers stay aborted and their outcomes are dropped\<close>

lemma query_step_aborted_mono: "aborted h \<subseteq> aborted (useAutoQuery_step S h e)"
  by (cases e) (auto simp: useAutoQuery_step_def effect_def cleanup_def Let_def)

lemma query_run_aborted_mono: "aborted h \<subseteq> aborted (foldl (useAutoQuery_step S) h es)"
proof (induction es arbitrary: h)
  case Nil
  show ?case by simp
next
  case (Cons e es)
  have "aborted h \<subseteq> aborted (useAutoQuery_step S h e)"
    by (rule query_step_aborted_mono)
  also have "\<dots> \<subseteq> aborted (foldl (useAutoQuery_step S) (useAutoQuery_step S h e) es)"
    by (rule Cons.IH)
  finally show ?case by simp
qed

lemma query_settle_aborted:
  "c \<in> aborted h \<Longrightarrow> state (useAutoQuery_step S h (Settle c r)) = state h"
  by (simp add: useAutoQuery_step_def awaited_def query_settled_def)

lemma query_settle_live:
  "c \<in> pending h \<Longrightarrow> c \<notin> aborted h \<Longrightarrow>
   state (useAutoQuery_step S h (Settle c r)) =
     query_settled (state h)
       (case r of FetchRejects e \<Rightarrow> Rejected e | FetchResponds res \<Rightarrow> json res)"
  by (simp add: useAutoQuery_step_def awaited_def)

lemma query_render_aborts:
  "mounted h \<Longrightarrow> B \<noteq> deps h \<Longrightarrow> controller h \<in> aborted (useAutoQuery_step S h (Render B))"
  by (simp add: useAutoQuery_step_def effect_def cleanup_def Let_def)

text \<open>Only a settlement of a pending controller that was not aborted changes the
  state.\<close>

lemma query_state_change:
  assumes "state (useAutoQuery_step S h e) \<noteq> state h"
  shows "\<exists>c r. e = Settle c r \<and> c \<in> pending h \<and> c \<notin> aborted h"
  using assms
  by (cases e)
     (auto simp: useAutoQuery_step_def effect_def cleanup_def Let_def awaited_def query_settled_def
           split: if_splits)

subsection \<open>Every pending request but the latest is aborted\<close>

lemma query_inv_init:
  "pending (useAutoQuery S p) \<subseteq> insert (controller (useAutoQuery S p)) (aborted (useAutoQuery S p))"
  by (simp add: useAutoQuery_def effect_def Let_def)

lemma query_inv_step:
  "pending h \<subseteq> insert (controller h) (aborted h) \<Longrightarrow>
   pending (useAutoQuery_step S h e) \<subseteq>
     insert (controller (useAutoQuery_step S h e)) (aborted (useAutoQuery_step S h e))"
  by (cases e) (auto simp: useAutoQuery_step_def effect_def cleanup_def Let_def)

lemma query_inv_run:
  "pending h \<subseteq> insert (controller h) (aborted h) \<Longrightarrow>
   pending (foldl (useAutoQuery_step S) h es) \<subseteq>
     insert (controller (foldl (useAutoQuery_step S) h es))
       (aborted (foldl (useAutoQuery_step S) h es))"
proof (induction es arbitrary: h)
  case Nil
  then show ?case by simp
next
  case (Cons e es)
  from Cons.prems have "pending (useAutoQuery_step S h e) \<subseteq>
     insert (controller (useAutoQuery_step S h e)) (aborted (useAutoQuery_step S h e))"
    by (rule query_inv_step)
  then show ?case
    using Cons.IH by simp
qed

lemma query_settles_only:
  "\<forall>e \<in> set es. \<exists>c r. e = Settle c r \<Longrightarrow>
   controller (foldl (useAutoQuery_step S) h es) = controller h"
  by (induction es arbitrary: h) (auto simp: useAutoQuery_step_def)

text \<open>
  Claim C2: when the activation with path A is followed by an activation with path B
  before A's request resolves, A's late outcome never changes the hook's state; only
  B's result, if any, may set \<open>data\<close> or \<open>error\<close>.

  Here \<open>h\<close> is any instance reached after mounting, A is its current path
  \<open>deps h\<close> and \<open>controller h\<close> the controller of A's request; \<open>h'\<close> is the instance
  at any later time after the render with B. Whatever the platform delivers for A's
  request leaves the state as it is; an event that does change the state is the
  settlement of the latest activation's request, which is not A's; and while nothing
  but settlements happen the latest activation is B's, whose controller is the one
  numbered \<open>controllers h\<close>.
\<close>

theorem superseded_query_is_inert:
  fixes S :: "js_value \<Rightarrow> 'w"
  assumes reach: "h = foldl (useAutoQuery_step S) (useAutoQuery S p0) es0"
    and live: "mounted h" and new: "B \<noteq> deps h"
    and later: "h' = foldl (useAutoQuery_step S) (useAutoQuery_step S h (Render B)) es"
  shows "state (useAutoQuery_step S h' (Settle (controller h) r)) = state h' \<and>
         (state (useAutoQuery_step S h' e) \<noteq> state h' \<longrightarrow>
            (\<exists>r'. e = Settle (controller h') r') \<and> controller h' \<noteq> controller h) \<and>
         ((\<forall>e \<in> set es. \<exists>c r. e = Settle c r) \<longrightarrow> controller h' = controllers h)"
proof (intro conjI impI)
  have "controller h \<in> aborted (useAutoQuery_step S h (Render B))"
    using live new by (rule query_render_aborts)
  then have old: "controller h \<in> aborted h'"
    unfolding later using query_run_aborted_mono by blast
  then show "state (useAutoQuery_step S h' (Settle (controller h) r)) = state h'"
    by (rule query_settle_aborted)
  have inv: "pending h' \<subseteq> insert (controller h') (aborted h')"
    unfolding later reach foldl_Cons [symmetric] foldl_append [symmetric]
    by (rule query_inv_run [OF query_inv_init])
  {
    assume "state (useAutoQuery_step S h' e) \<noteq> state h'"
    then obtain c r' where e: "e = Settle c r'" and c: "c \<in> pending h'" "c \<notin> aborted h'"
      using query_state_change by blast
    from c inv have "c = controller h'" by blast
    with e c old show "\<exists>r'. e = Settle (controller h') r'" and "controller h' \<noteq> controller h"
      by auto
  }
  assume "\<forall>e \<in> set es. \<exists>c r. e = Settle c r"
  then have "controller h' = controller (useAutoQuery_step S h (Render B))"
    unfolding later by (rule query_settles_only)
  also have "\<dots> = controllers h"
    using live new by (simp add: useAutoQuery_step_def effect_def cleanup_def Let_def)
  finally show "controller h' = controllers h" .
qed

theorem superseded_query_is_inert_witness:
  "state (useAutoQuery_step id
      (foldl (useAutoQuery_step id) (useAutoQuery_step id (useAutoQuery id ''/a'') (Render ''/b''))
         [Settle 1 (FetchResponds \<lparr>status = 200, json = Resolved (JString ''b'')\<rparr>)])
      (Settle 0 (FetchResponds \<lparr>status = 200, json = Resolved (JString ''a'')\<rparr>)))
   = \<lparr>data = Some (JString ''b''), error = None, loading = False\<rparr>"
proof -
  let ?h = "useAutoQuery id ''/a'' :: js_value query_instance"
  let ?es = "[Settle 1 (FetchResponds \<lparr>status = 200, json = Resolved (JString ''b'')\<rparr>)]"
  let ?h' = "foldl (useAutoQuery_step id) (useAutoQuery_step id ?h (Render ''/b'')) ?es"
  have "?h = foldl (useAutoQuery_step id) (useAutoQuery id ''/a'') []"
    by simp
  moreover have "mounted ?h" and "''/b'' \<noteq> deps ?h"
    by (simp_all add: useAutoQuery_def effect_def Let_def)
  ultimately have
    "state (useAutoQuery_step id ?h'
       (Settle (controller ?h) (FetchResponds \<lparr>status = 200, json = Resolved (JString ''a'')\<rparr>)))
     = state ?h'"
    using superseded_query_is_inert [of ?h id "''/a''" "[]" "''/b''" ?h' ?es] by simp
  moreover have "controller ?h = 0"
    by (simp add: useAutoQuery_def effect_def Let_def)
  moreover have "state ?h' = \<lparr>data = Some (JString ''b''), error = None, loading = False\<rparr>"
    by (simp add: useAutoQuery_def useAutoQuery_step_def effect_def cleanup_def Let_def
        awaited_def query_settled_def)
  ultimately show ?thesis by simp
qed

text \<open>
  Claim C4: whenever the hook is activated, at mount or when its path argument changes,
  it sets its state to loading, clearing earlier data and error, and posts
  \<^verbatim>\<open>{method: "GET", path}\<close> to the proxy endpoint.

  The state is loading at mount because \<^verbatim>\<open>useState\<close> starts there; the effect itself
  never calls \<^verbatim>\<open>setState\<close> before its request settles. After the answer for
  \<^verbatim>\<open>/a\<close> has arrived, a change of the path to \<^verbatim>\<open>/b\<close> issues the second request
  and leaves the state at the data of \<^verbatim>\<open>/a\<close> with \<open>loading\<close> false.
\<close>

theorem query_path_change_keeps_state:
  "state (foldl (useAutoQuery_step S) (useAutoQuery S ''/a'')
      [Settle 0 (FetchResponds \<lparr>status = 200, json = Resolved d\<rparr>), Render ''/b''])
     = \<lparr>data = Some d, error = None, loading = False\<rparr> \<and>
   calls (foldl (useAutoQuery_step S) (useAutoQuery S ''/a'')
      [Settle 0 (FetchResponds \<lparr>status = 200, json = Resolved d\<rparr>), Render ''/b'']) ! 1
     = \<lparr>init_url = ''/api/proxy'', init_method = ''POST'',
        init_headers = [(''Content-Type'', ''application/json'')],
        init_body = Some (S (JObject [(''method'', JString ''GET''), (''path'', JString ''/b'')])),
        init_signal = Some 1\<rparr>"
  by (simp add: useAutoQuery_def useAutoQuery_step_def effect_def cleanup_def Let_def
      awaited_def query_settled_def)

text \<open>At mount the claim holds: the state is loading and the request is posted.\<close>

lemma query_mount:
  "state (useAutoQuery S p) = \<lparr>data = None, error = None, loading = True\<rparr> \<and>
   calls (useAutoQuery S p) =
     [\<lparr>init_url = ''/api/proxy'', init_method = ''POST'',
       init_headers = [(''Content-Type'', ''application/json'')],
       init_body = Some (S (JObject [(''method'', JString ''GET''), (''path'', JString p)])),
       init_signal = Some 0\<rparr>]"
  by (simp add: useAutoQuery_def effect_def Let_def)

text \<open>
  Claim C10: the hook never looks at the HTTP status of the proxy's response. Every
  response whose body decodes as JSON, the proxy's failure body
  \<^verbatim>\<open>{error: "Request failed"}\<close> with status 500 included, becomes \<open>data\<close> with no
  error; \<open>error\<close> is set, to the fixed string \<^verbatim>\<open>Request failed\<close>, only when
  \<^verbatim>\<open>fetch\<close> or the decoding throws an error that is not an abort.
\<close>

theorem query_ignores_status:
  "(c \<in> pending h \<and> c \<notin> aborted h \<longrightarrow>
      state (useAutoQuery_step S h (Settle c (FetchResponds \<lparr>status = s, json = Resolved v\<rparr>)))
        = \<lparr>data = Some v, error = None, loading = False\<rparr>) \<and>
   (c \<in> pending h \<and> c \<notin> aborted h \<and> name err \<noteq> ''AbortError'' \<and>
    (r = FetchRejects err \<or> r = FetchResponds \<lparr>status = s, json = Rejected err\<rparr>) \<longrightarrow>
      state (useAutoQuery_step S h (Settle c r))
        = \<lparr>data = None, error = Some ''Request failed'', loading = False\<rparr>) \<and>
   (error (state (useAutoQuery_step S h e)) = Some msg \<and> error (state h) \<noteq> Some msg \<longrightarrow>
      msg = ''Request failed'' \<and>
      (\<exists>c' r' err'. e = Settle c' r' \<and> c' \<in> pending h \<and> c' \<notin> aborted h \<and>
         name err' \<noteq> ''AbortError'' \<and>
         (r' = FetchRejects err' \<or> (\<exists>res. r' = FetchResponds res \<and> json res = Rejected err'))))"
proof (intro conjI impI)
  assume "c \<in> pending h \<and> c \<notin> aborted h"
  then show "state (useAutoQuery_step S h (Settle c (FetchResponds \<lparr>status = s, json = Resolved v\<rparr>)))
        = \<lparr>data = Some v, error = None, loading = False\<rparr>"
    by (simp add: query_settle_live query_settled_def)
next
  assume "c \<in> pending h \<and> c \<notin> aborted h \<and> name err \<noteq> ''AbortError'' \<and>
    (r = FetchRejects err \<or> r = FetchResponds \<lparr>status = s, json = Rejected err\<rparr>)"
  then show "state (useAutoQuery_step S h (Settle c r))
        = \<lparr>data = None, error = Some ''Request failed'', loading = False\<rparr>"
    by (auto simp: query_settle_live query_settled_def)
next
  assume a: "error (state (useAutoQuery_step S h e)) = Some msg \<and> error (state h) \<noteq> Some msg"
  then have "state (useAutoQuery_step S h e) \<noteq> state h"
    by auto
  then obtain c' r' where e: "e = Settle c' r'" and c': "c' \<in> pending h" "c' \<notin> aborted h"
    using query_state_change by blast
  have st: "state (useAutoQuery_step S h e) =
     query_settled (state h)
       (case r' of FetchRejects e \<Rightarrow> Rejected e | FetchResponds res \<Rightarrow> json res)"
    unfolding e using c' by (rule query_settle_live)
  show "msg = ''Request failed''"
    using a unfolding st
    by (auto simp: query_settled_def split: promise.splits if_splits)
  show "\<exists>c' r' err'. e = Settle c' r' \<and> c' \<in> pending h \<and> c' \<notin> aborted h \<and>
         name err' \<noteq> ''AbortError'' \<and>
         (r' = FetchRejects err' \<or> (\<exists>res. r' = FetchResponds res \<and> json res = Rejected err'))"
    using a e c' unfolding st
    by (cases r') (auto simp: query_settled_def split: promise.splits if_splits)
qed

theorem query_ignores_status_witness:
  "state (useAutoQuery_step id (useAutoQuery id ''/todos'')
      (Settle 0 (FetchResponds
         \<lparr>status = 500, json = Resolved (JObject [(''error'', JString ''Request failed'')])\<rparr>)))
     = \<lparr>data = Some (JObject [(''error'', JString ''Request failed'')]), error = None,
        loading = False\<rparr> \<and>
   state (useAutoQuery_step id (useAutoQuery id ''/todos'')
      (Settle 0 (FetchRejects (JsError ''TypeError'' ''Failed to fetch''))))
     = \<lparr>data = None, error = Some ''Request failed'', loading = False\<rparr>"
  using query_ignores_status [of 0 "useAutoQuery id ''/todos'' :: js_value query_instance" id 500
      "JObject [(''error'', JString ''Request failed'')]" "JsError ''TypeError'' ''Failed to fetch''"
      "FetchRejects (JsError ''TypeError'' ''Failed to fetch'')"]
  by (simp add: useAutoQuery_def effect_def Let_def)

subsection \<open>Unmounting the query hook\<close>

text \<open>The cleanup aborts the request in flight, and nothing that happens afterwards
  changes the state.\<close>

lemma query_unmount_aborts:
  "mounted h \<Longrightarrow> controller h \<in> aborted (useAutoQuery_step S h Unmount)"
  by (simp add: useAutoQuery_step_def cleanup_def)

lemma query_unmounted_step:
  assumes "\<not> mounted h" and "pending h \<subseteq> aborted h"
  shows "\<not> mounted (useAutoQuery_step S h e) \<and>
         pending (useAutoQuery_step S h e) \<subseteq> aborted (useAutoQuery_step S h e) \<and>
         state (useAutoQuery_step S h e) = state h"
  using assms
  by (cases e) (auto simp: useAutoQuery_step_def awaited_def query_settled_def)

lemma query_unmounted_run:
  "\<not> mounted h \<Longrightarrow> pending h \<subseteq> aborted h \<Longrightarrow>
   state (foldl (useAutoQuery_step S) h es) = state h"
proof (induction es arbitrary: h)
  case Nil
  show ?case by simp
next
  case (Cons e es)
  then show ?case
    using query_unmounted_step [of h S e] by simp
qed

lemma query_unmount_inert:
  assumes "h = foldl (useAutoQuery_step S) (useAutoQuery S p0) es0" and "mounted h"
  shows "state (foldl (useAutoQuery_step S) (useAutoQuery_step S h Unmount) es) = state h"
proof -
  have "pending h \<subseteq> insert (controller h) (aborted h)"
    unfolding assms(1) by (rule query_inv_run [OF query_inv_init])
  then have "pending (useAutoQuery_step S h Unmount) \<subseteq> aborted (useAutoQuery_step S h Unmount)"
    using assms(2) by (auto simp: useAutoQuery_step_def cleanup_def)
  moreover have "\<not> mounted (useAutoQuery_step S h Unmount)"
    by (simp add: useAutoQuery_step_def cleanup_def)
  ultimately have "state (foldl (useAutoQuery_step S) (useAutoQuery_step S h Unmount) es)
      = state (useAutoQuery_step S h Unmount)"
    by (rule query_unmounted_run [rotated])
  then show ?thesis
    by (simp add: useAutoQuery_step_def cleanup_def)
qed

section \<open>useAutoMutation\<close>

text \<open>No code of the hook calls \<^verbatim>\<open>abort()\<close>: the set of aborted controllers never
  changes.\<close>

lemma mutation_step_aborted: "aborted (useAutoMutation_step S path m h e) = aborted h"
  by (cases e)
     (auto simp: useAutoMutation_step_def mutate_def mutate_settled_def Let_def
           split: promise.splits option.splits)

lemma mutation_run_aborted:
  "aborted (foldl (useAutoMutation_step S path m) useAutoMutation es) = {}"
proof -
  have "aborted (foldl (useAutoMutation_step S path m) h es) = aborted h" for h
    by (induction es arbitrary: h) (simp_all add: mutation_step_aborted)
  then show ?thesis
    by (simp add: useAutoMutation_def)
qed

text \<open>
  Claim C3: when \<^verbatim>\<open>mutate\<close> is called twice, the second time before the first
  request has completed, only the second call's outcome is reflected in the state, also
  when the first request completes later; the first promise still settles.

  The hook keeps no notion of a latest call and aborts nothing, so whichever request
  completes last writes the state: when the second request is answered with \<open>d2\<close> and
  then the first with \<open>d1\<close>, the state ends at \<open>d1\<close>. Both promises have settled.
\<close>

theorem mutate_first_call_overwrites:
  "state (foldl (useAutoMutation_step S path m) useAutoMutation
      [Mutate b1, Mutate b2,
       Settle 1 (FetchResponds \<lparr>status = 200, json = Resolved d2\<rparr>),
       Settle 0 (FetchResponds \<lparr>status = 200, json = Resolved d1\<rparr>)])
     = \<lparr>data = Some d1, error = None, loading = False\<rparr> \<and>
   returned (foldl (useAutoMutation_step S path m) useAutoMutation
      [Mutate b1, Mutate b2,
       Settle 1 (FetchResponds \<lparr>status = 200, json = Resolved d2\<rparr>),
       Settle 0 (FetchResponds \<lparr>status = 200, json = Resolved d1\<rparr>)]) 0
     = Some (Resolved d1)"
  by (simp add: useAutoMutation_def useAutoMutation_step_def mutate_def mutate_settled_def
      Let_def awaited_def)

text \<open>
  Claim C8: unmounting a hook while a request is in flight does not throw, never
  changes the discarded state afterwards, and attempts to cancel the request.

  \<open>useAutoQuery\<close> does so (\<open>query_unmount_aborts\<close>, \<open>query_unmount_inert\<close>).
  \<open>useAutoMutation\<close> creates a controller and passes its signal but registers no
  cleanup: after \<^verbatim>\<open>mutate(b)\<close> and an unmount no controller is aborted, the request is
  still pending, and its answer is written to the state.
\<close>

theorem mutation_unmount_no_abort:
  "aborted (foldl (useAutoMutation_step S path m) useAutoMutation [Mutate b, Unmount]) = {} \<and>
   pending (foldl (useAutoMutation_step S path m) useAutoMutation [Mutate b, Unmount]) = {0} \<and>
   state (foldl (useAutoMutation_step S path m) useAutoMutation
      [Mutate b, Unmount, Settle 0 (FetchResponds \<lparr>status = 200, json = Resolved d\<rparr>)])
     = \<lparr>data = Some d, error = None, loading = False\<rparr>"
  by (simp add: useAutoMutation_def useAutoMutation_step_def mutate_def mutate_settled_def
      Let_def awaited_def)

text \<open>The abort branch of the catch block returns, which would resolve the promise
  with \<^verbatim>\<open>undefined\<close> and leave the state alone. With no call to \<^verbatim>\<open>abort()\<close>
  (\<open>mutation_run_aborted\<close>) the hook never causes the rejection that leads there.\<close>

lemma mutate_settled_abort:
  "name err = ''AbortError'' \<Longrightarrow>
   mutate_settled c (Rejected err) h = h\<lparr>returned := (returned h)(c \<mapsto> Resolved JUndefined)\<rparr>"
  by (simp add: mutate_settled_def)

text \<open>
  Claim C9: when an in-flight \<^verbatim>\<open>mutate\<close> call is cancelled because the component is
  deactivated, the promise it returned is abandoned, neither resolved nor rejected, and
  the call causes no further state transition.

  Deactivating the component cancels nothing: the request of \<^verbatim>\<open>mutate(b)\<close> runs
  on after the unmount. When the proxy answers with \<open>d\<close> the promise resolves with
  \<open>d\<close> and the state is set; when the request fails the promise rejects and the
  state is set to the error.
\<close>

theorem mutation_unmount_promise_settles:
  "returned (foldl (useAutoMutation_step S path m) useAutoMutation
      [Mutate b, Unmount, Settle 0 (FetchResponds \<lparr>status = 200, json = Resolved d\<rparr>)]) 0
     = Some (Resolved d) \<and>
   state (foldl (useAutoMutation_step S path m) useAutoMutation
      [Mutate b, Unmount, Settle 0 (FetchResponds \<lparr>status = 200, json = Resolved d\<rparr>)])
     = \<lparr>data = Some d, error = None, loading = False\<rparr> \<and>
   returned (foldl (useAutoMutation_step S path m) useAutoMutation
      [Mutate b, Unmount, Settle 0 (FetchRejects (JsError ''TypeError'' ''Failed to fetch''))]) 0
     = Some (Rejected (JsError ''TypeError'' ''Failed to fetch'')) \<and>
   state (foldl (useAutoMutation_step S path m) useAutoMutation
      [Mutate b, Unmount, Settle 0 (FetchRejects (JsError ''TypeError'' ''Failed to fetch''))])
     = \<lparr>data = None, error = Some ''Request failed'', loading = False\<rparr>"
  by (simp add: useAutoMutation_def useAutoMutation_step_def mutate_def mutate_settled_def
      Let_def awaited_def)

end
